theory Spec2Isabelle
  imports Complex_Main
begin

section \<open>Model selection with Probabilistic PCA and Factor Analysis: the notebook\<close>

text \<open>
  The notebook is glue code over numpy, scipy, scikit-learn and plotly. Its own
  statements are embedded here; the library routines it calls are either written out
  (where their result is a simple function of their arguments: \<open>np.arange\<close>,
  \<open>np.argmax\<close>, \<open>np.mean\<close>, \<open>np.logspace\<close>, element-wise arithmetic) or
  taken as parameters in the record \<open>library\<close> (random number generation, the SVD,
  model fitting and cross-validation). Floating-point numbers are idealised as reals,
  but for the line that computes \<open>sigmas\<close>, whose bounds depend on the rounding: it is
  computed in double precision.
  An exception is the value \<open>Inl\<close> of a computation; a cell that raises ends the
  run with that exception, and what it had assigned before is not kept.
\<close>

subsection \<open>Exceptions\<close>

datatype error = ValueError | IndexError | ZeroDivisionError | TypeError | LibraryError nat

fun bind :: "error + 'a \<Rightarrow> ('a \<Rightarrow> error + 'b) \<Rightarrow> error + 'b" where
  "bind (Inl e) f = Inl e"
| "bind (Inr x) f = f x"

subsection \<open>numpy and Python built-ins, written out\<close>

text \<open>
  \<open>np.arange(start, stop, step)\<close> on integers: the values \<open>start + i * step\<close>
  for \<open>0 \<le> i < ceil((stop - start) / step)\<close>; a zero step raises.
\<close>

definition arange :: "int \<Rightarrow> int \<Rightarrow> int \<Rightarrow> error + int list" where
  "arange start stop step =
     (if step = 0 then Inl ZeroDivisionError
      else Inr (map (\<lambda>i. start + int i * step) [0 ..< nat (- ((start - stop) div step))]))"

text \<open>
  \<open>np.argmax\<close>: one pass from the left that keeps the position of the first element
  strictly greater than everything before it; the empty sequence raises ValueError.
\<close>

fun argmax_scan :: "real list \<Rightarrow> nat \<Rightarrow> real \<Rightarrow> nat \<Rightarrow> nat" where
  "argmax_scan [] k mv mi = mi"
| "argmax_scan (x # xs) k mv mi =
     (if mv < x then argmax_scan xs (Suc k) x k else argmax_scan xs (Suc k) mv mi)"

fun argmax :: "real list \<Rightarrow> error + nat" where
  "argmax [] = Inl ValueError"
| "argmax (x # xs) = Inr (argmax_scan xs 1 x 0)"

text \<open>
  \<open>np.mean\<close> of a sequence of numbers. On an empty sequence numpy answers nan; the
  sequences the notebook averages are the per-fold scores of \<open>cross_val_score\<close>, one
  for each of at least two folds.
\<close>

definition np_mean :: "real list \<Rightarrow> real" where
  "np_mean xs = sum_list xs / real (length xs)"

text \<open>Indexing with a non-negative index: out of range raises IndexError.\<close>

definition getitem :: "'a list \<Rightarrow> nat \<Rightarrow> error + 'a" where
  "getitem xs i = (if i < length xs then Inr (xs ! i) else Inl IndexError)"

text \<open>Python's \<open>min\<close> and \<open>max\<close> of a sequence: ValueError on an empty one.\<close>

fun py_min :: "'a::linorder list \<Rightarrow> error + 'a" where
  "py_min [] = Inl ValueError"
| "py_min (x # xs) = Inr (fold min xs x)"

fun py_max :: "'a::linorder list \<Rightarrow> error + 'a" where
  "py_max [] = Inl ValueError"
| "py_max (x # xs) = Inr (fold max xs x)"

subsection \<open>Estimators and the library interface\<close>

text \<open>
  An estimator object is its hyper-parameters: \<open>cross_val_score\<close> and
  \<open>GridSearchCV\<close> clone the estimator they are given, so nothing a fit leaves in the
  object reaches a score.
\<close>

datatype n_comp = NoneC | IntC int | MLE

datatype estimator =
    PCA string n_comp
  | FactorAnalysis n_comp
  | ShrunkCovariance real
  | LedoitWolf

fun set_n_components :: "estimator \<Rightarrow> n_comp \<Rightarrow> estimator" where
  "set_n_components (PCA solver _) n = PCA solver n"
| "set_n_components (FactorAnalysis _) n = FactorAnalysis n"
| "set_n_components e n = e"

type_synonym matrix = "real list list"

text \<open>
  The library calls whose results the notebook only passes on. \<open>'g\<close> is the state of
  the pseudo-random generator. A call that raises returns \<open>Inl\<close>.
  \<^item> \<open>RandomState seed\<close>, \<open>randn g rows cols\<close>, \<open>rand g n\<close>: numpy's generator;
    a draw returns the numbers and the generator's next state.
  \<^item> \<open>svd_U A\<close>: the first result of \<open>linalg.svd(A)\<close>.
  \<^item> \<open>cross_val_score est X\<close>: the per-fold scores of \<open>est\<close> on \<open>X\<close>.
  \<^item> \<open>grid_cv_score est X\<close>: the cross-validated score \<open>GridSearchCV\<close> gives a
    candidate.
  \<^item> \<open>pca_mle_rank X\<close>: \<open>n_components_\<close> after fitting
    \<open>PCA(svd_solver='full', n_components='mle')\<close> to \<open>X\<close>.
\<close>

record 'g library =
  RandomState :: "nat \<Rightarrow> 'g"
  randn :: "'g \<Rightarrow> nat \<Rightarrow> nat \<Rightarrow> matrix \<times> 'g"
  rand :: "'g \<Rightarrow> nat \<Rightarrow> real list \<times> 'g"
  svd_U :: "matrix \<Rightarrow> error + matrix"
  cross_val_score :: "estimator \<Rightarrow> matrix \<Rightarrow> error + real list"
  grid_cv_score :: "estimator \<Rightarrow> matrix \<Rightarrow> error + real"
  pca_mle_rank :: "matrix \<Rightarrow> error + int"

subsection \<open>The score computer\<close>

text \<open>
  \<^verbatim>\<open>
  def compute_scores(X):
      pca = PCA(svd_solver='full')
      fa = FactorAnalysis()
      pca_scores, fa_scores = [], []
      for n in n_components:
          pca.n_components = n
          fa.n_components = n
          pca_scores.append(np.mean(cross_val_score(pca, X)))
          fa_scores.append(np.mean(cross_val_score(fa, X)))
      return pca_scores, fa_scores
  \<close>
  The loop carries the two estimator objects and the two lists; the global grid
  \<open>n_components\<close> it reads is the argument \<open>grid\<close>.
\<close>

fun compute_scores_loop ::
  "'g library \<Rightarrow> matrix \<Rightarrow> int list \<Rightarrow> estimator \<Rightarrow> estimator \<Rightarrow> real list \<Rightarrow> real list
     \<Rightarrow> error + (real list \<times> real list)" where
  "compute_scores_loop L X [] pca fa pca_scores fa_scores = Inr (pca_scores, fa_scores)"
| "compute_scores_loop L X (n # ns) pca fa pca_scores fa_scores =
     (let pca' = set_n_components pca (IntC n);
          fa' = set_n_components fa (IntC n)
      in bind (cross_val_score L pca' X) (\<lambda>sp.
         bind (cross_val_score L fa' X) (\<lambda>sf.
           compute_scores_loop L X ns pca' fa'
             (pca_scores @ [np_mean sp]) (fa_scores @ [np_mean sf]))))"

definition compute_scores ::
  "'g library \<Rightarrow> int list \<Rightarrow> matrix \<Rightarrow> error + (real list \<times> real list)" where
  "compute_scores L grid X =
     compute_scores_loop L X grid (PCA ''full'' NoneC) (FactorAnalysis NoneC) [] []"

subsection \<open>The shrinkage baselines\<close>

text \<open>
  \<open>np.linspace(start, stop, num)\<close> with its end point, and
  \<open>np.logspace(start, stop, num)\<close> in base ten.
\<close>

definition linspace :: "real \<Rightarrow> real \<Rightarrow> nat \<Rightarrow> real list" where
  "linspace start stop num =
     map (\<lambda>i. start + real i * ((stop - start) / real (num - 1))) [0 ..< num]"

definition logspace :: "real \<Rightarrow> real \<Rightarrow> nat \<Rightarrow> real list" where
  "logspace start stop num = map (\<lambda>y. 10 powr y) (linspace start stop num)"

fun map_err :: "('a \<Rightarrow> error + 'b) \<Rightarrow> 'a list \<Rightarrow> error + 'b list" where
  "map_err f [] = Inr []"
| "map_err f (a # as) = bind (f a) (\<lambda>b. bind (map_err f as) (\<lambda>bs. Inr (b # bs)))"

fun set_shrinkage :: "estimator \<Rightarrow> real \<Rightarrow> estimator" where
  "set_shrinkage (ShrunkCovariance _) s = ShrunkCovariance s"
| "set_shrinkage e s = e"

text \<open>
  \<open>GridSearchCV(est, {'shrinkage': values}).fit(X).best_estimator_\<close>, by the
  library's contract: every candidate value is scored by cross-validation and the
  estimator with the best score is returned, the first one among equals.
\<close>

definition GridSearchCV_best_estimator ::
  "'g library \<Rightarrow> estimator \<Rightarrow> real list \<Rightarrow> matrix \<Rightarrow> error + estimator" where
  "GridSearchCV_best_estimator L est values X =
     bind (map_err (\<lambda>v. grid_cv_score L (set_shrinkage est v) X) values) (\<lambda>scores.
     bind (argmax scores) (\<lambda>best_index.
     bind (getitem values best_index) (\<lambda>v.
       Inr (set_shrinkage est v))))"

text \<open>
  \<^verbatim>\<open>
  def shrunk_cov_score(X):
      shrinkages = np.logspace(-2, 0, 30)
      cv = GridSearchCV(ShrunkCovariance(), {'shrinkage': shrinkages})
      return np.mean(cross_val_score(cv.fit(X).best_estimator_, X))

  def lw_score(X):
      return np.mean(cross_val_score(LedoitWolf(), X))
  \<close>
  \<open>ShrunkCovariance()\<close> has the default shrinkage 0.1.
\<close>

definition shrinkages :: "real list" where
  "shrinkages = logspace (- 2) 0 30"

definition shrunk_cov_score :: "'g library \<Rightarrow> matrix \<Rightarrow> error + real" where
  "shrunk_cov_score L X =
     bind (GridSearchCV_best_estimator L (ShrunkCovariance (1 / 10)) shrinkages X) (\<lambda>best_estimator.
     bind (cross_val_score L best_estimator X) (\<lambda>scores.
       Inr (np_mean scores)))"

definition lw_score :: "'g library \<Rightarrow> matrix \<Rightarrow> error + real" where
  "lw_score L X = bind (cross_val_score L LedoitWolf X) (\<lambda>scores. Inr (np_mean scores))"

subsection \<open>One pass of the main loop\<close>

text \<open>
  A string built with \<open>fmt % n\<close> is kept as its format and its argument.
\<close>

datatype label = Plain string | Format string int

record scatter =
  sc_x :: "real list"
  sc_y :: "real list"
  sc_name :: label
  sc_mode :: string
  sc_color :: string
  sc_dash :: "string option"

text \<open>
  The values one pass of the loop binds: the score sequences, the three selected
  component counts, the lines it prints and the traces it appends to \<open>data[i]\<close>.
\<close>

record iteration =
  pca_scores :: "real list"
  fa_scores :: "real list"
  n_components_pca :: int
  n_components_fa :: int
  n_components_pca_mle :: int
  printed :: "label list"
  traces :: "scatter list"

definition vertical :: "int \<Rightarrow> real \<Rightarrow> real \<Rightarrow> label \<Rightarrow> string \<Rightarrow> scatter" where
  "vertical n lo hi nm color =
     \<lparr>sc_x = [of_int n, of_int n], sc_y = [lo, hi], sc_name = nm,
      sc_mode = ''lines'', sc_color = color, sc_dash = Some ''dash''\<rparr>"

text \<open>
  \<^verbatim>\<open>
      pca_scores, fa_scores = compute_scores(X)
      n_components_pca = n_components[np.argmax(pca_scores)]
      n_components_fa = n_components[np.argmax(fa_scores)]

      pca = PCA(svd_solver='full', n_components='mle')
      pca.fit(X)
      n_components_pca_mle = pca.n_components_

      print(title)
      print("best n_components by PCA CV = %d" % n_components_pca)
      print("best n_components by FactorAnalysis CV = %d" % n_components_fa)
      print("best n_components by PCA MLE = %d" % n_components_pca_mle)
      ... eight go.Scatter traces, each appended to data[i] ...
  \<close>
  The vertical reference lines run from \<open>min(pca_scores)-1\<close> to
  \<open>max(fa_scores)+1\<close>, the horizontal ones from \<open>min(n_components)\<close> to
  \<open>max(n_components)\<close> at the height of \<open>shrunk_cov_score(X)\<close> and
  \<open>lw_score(X)\<close>, each of which the source evaluates twice.
\<close>

definition loop_body ::
  "'g library \<Rightarrow> int list \<Rightarrow> int \<Rightarrow> matrix \<Rightarrow> string \<Rightarrow> error + iteration" where
  "loop_body L grid rnk X title =
     bind (compute_scores L grid X) (\<lambda>(ps, fs).
     bind (argmax ps) (\<lambda>i_pca.
     bind (getitem grid i_pca) (\<lambda>n_pca.
     bind (argmax fs) (\<lambda>i_fa.
     bind (getitem grid i_fa) (\<lambda>n_fa.
     bind (pca_mle_rank L X) (\<lambda>n_mle.
     bind (py_min ps) (\<lambda>lo.
     bind (py_max fs) (\<lambda>hi.
     bind (shrunk_cov_score L X) (\<lambda>sc1.
     bind (shrunk_cov_score L X) (\<lambda>sc2.
     bind (py_min grid) (\<lambda>g_lo.
     bind (py_max grid) (\<lambda>g_hi.
     bind (lw_score L X) (\<lambda>lw1.
     bind (lw_score L X) (\<lambda>lw2.
       Inr \<lparr>pca_scores = ps, fa_scores = fs,
            n_components_pca = n_pca, n_components_fa = n_fa,
            n_components_pca_mle = n_mle,
            printed =
              [Plain title,
               Format ''best n_components by PCA CV = %d'' n_pca,
               Format ''best n_components by FactorAnalysis CV = %d'' n_fa,
               Format ''best n_components by PCA MLE = %d'' n_mle],
            traces =
              [\<lparr>sc_x = map of_int grid, sc_y = ps, sc_name = Plain ''PCA scores'',
                sc_mode = ''lines'', sc_color = ''blue'', sc_dash = None\<rparr>,
               \<lparr>sc_x = map of_int grid, sc_y = fs, sc_name = Plain ''FA scores'',
                sc_mode = ''lines'', sc_color = ''red'', sc_dash = None\<rparr>,
               vertical rnk (lo - 1) (hi + 1) (Format ''TRUTH: %d'' rnk) ''green'',
               vertical n_pca (lo - 1) (hi + 1) (Format ''PCA CV: %d'' n_pca) ''blue'',
               vertical n_fa (lo - 1) (hi + 1)
                 (Format ''FactorAnalysis CV: %d'' n_fa) ''red'',
               vertical n_mle (lo - 1) (hi + 1) (Format ''PCA MLE: %d'' n_mle) ''black'',
               \<lparr>sc_x = [of_int g_lo, of_int g_hi], sc_y = [sc1, sc2],
                sc_name = Plain ''Shrunk Covariance MLE'', sc_mode = ''lines'',
                sc_color = ''violet'', sc_dash = Some ''dash''\<rparr>,
               \<lparr>sc_x = [of_int g_lo, of_int g_hi], sc_y = [lw1, lw2],
                sc_name = Format ''LedoitWolf MLE'' n_mle, sc_mode = ''lines'',
                sc_color = ''orange'', sc_dash = Some ''dashdot''\<rparr>]\<rparr>))))))))))))))"

subsection \<open>Double precision\<close>

text \<open>
  Rounding a real number to the nearest double, ties to the even significand: a double
  with exponent \<open>e\<close> is a multiple of \<open>2^(e - 52)\<close>, the exponent of \<open>x\<close> is
  \<open>floor(log2 |x|)\<close>, and not below \<open>-1022\<close> (the subnormal numbers). Overflow to
  infinity is not represented; the numbers rounded here are at most two.
\<close>

definition round_half_even :: "real \<Rightarrow> int" where
  "round_half_even x =
     (let f = \<lfloor>x\<rfloor>; d = x - of_int f
      in if d < 1 / 2 then f else if 1 / 2 < d then f + 1 else if even f then f else f + 1)"

definition double_exponent :: "real \<Rightarrow> int" where
  "double_exponent x = max \<lfloor>log 2 \<bar>x\<bar>\<rfloor> (- 1022)"

definition fl :: "real \<Rightarrow> real" where
  "fl x =
     (if x = 0 then 0
      else of_int (round_half_even (x / 2 powi (double_exponent x - 52)))
             * 2 powi (double_exponent x - 52))"

subsection \<open>Creating the data\<close>

definition n_samples :: nat where "n_samples = 1000"
definition n_features :: nat where "n_features = 50"
definition rank :: nat where "rank = 10"
definition sigma :: real where "sigma = 1"

text \<open>
  Element-wise arithmetic on arrays of the shapes the notebook combines: two matrices
  of one shape, a scalar and an array, a matrix and a vector as long as its rows (the
  vector is broadcast over the rows). Other shapes are reported as ValueError; numpy
  would stretch an axis of length one, which the notebook's operands do not have.
  \<open>np.dot\<close> of two matrices needs the rows of the first as long as the second has
  rows.
\<close>

definition mat_add :: "matrix \<Rightarrow> matrix \<Rightarrow> error + matrix" where
  "mat_add A B =
     (if length A = length B \<and> list_all2 (\<lambda>a b. length a = length b) A B
      then Inr (map2 (map2 (+)) A B) else Inl ValueError)"

definition scalar_mul :: "real \<Rightarrow> matrix \<Rightarrow> matrix" where
  "scalar_mul c A = map (map ((*) c)) A"

definition mul_broadcast :: "matrix \<Rightarrow> real list \<Rightarrow> error + matrix" where
  "mul_broadcast A v =
     (if list_all (\<lambda>a. length a = length v) A
      then Inr (map (\<lambda>a. map2 (*) a v) A) else Inl ValueError)"

definition dot :: "matrix \<Rightarrow> matrix \<Rightarrow> error + matrix" where
  "dot A B =
     (if list_all (\<lambda>a. length a = length B) A
      then Inr (map (\<lambda>a. map (\<lambda>b. sum_list (map2 (*) a b)) (transpose B)) A)
      else Inl ValueError)"

text \<open>
  \<^verbatim>\<open>
  n_samples, n_features, rank = 1000, 50, 10
  sigma = 1.
  rng = np.random.RandomState(42)
  U, _, _ = linalg.svd(rng.randn(n_features, n_features))
  X = np.dot(rng.randn(n_samples, rank), U[:, :rank].T)

  # Adding homoscedastic noise
  X_homo = X + sigma * rng.randn(n_samples, n_features)

  # Adding heteroscedastic noise
  sigmas = sigma * rng.rand(n_features) + sigma / 2.
  X_hetero = X + rng.randn(n_samples, n_features) * sigmas
  \<close>
  Each entry of \<open>sigmas\<close> is two double-precision operations on a draw \<open>u\<close>: the
  product \<open>sigma * u\<close> and its sum with \<open>sigma / 2.\<close>, each rounded.
\<close>

record 'g created =
  new_rng :: 'g
  new_U :: matrix
  new_X :: matrix
  new_X_homo :: matrix
  new_sigmas :: "real list"
  new_X_hetero :: matrix

definition create_data :: "'g library \<Rightarrow> error + 'g created" where
  "create_data L =
     (let rng0 = RandomState L 42;
          (A, rng1) = randn L rng0 n_features n_features
      in bind (svd_U L A) (\<lambda>U.
         let (C, rng2) = randn L rng1 n_samples rank
         in bind (dot C (transpose (map (take rank) U))) (\<lambda>X.
            let (Z1, rng3) = randn L rng2 n_samples n_features
            in bind (mat_add X (scalar_mul sigma Z1)) (\<lambda>X_homo.
               let (r, rng4) = rand L rng3 n_features;
                   sigmas = map (\<lambda>u. fl (fl (sigma * u) + fl (sigma / 2))) r;
                   (Z2, rng5) = randn L rng4 n_samples n_features
               in bind (mul_broadcast Z2 sigmas) (\<lambda>N.
                  bind (mat_add X N) (\<lambda>X_hetero.
                    Inr \<lparr>new_rng = rng5, new_U = U, new_X = X, new_X_homo = X_homo,
                         new_sigmas = sigmas, new_X_hetero = X_hetero\<rparr>))))))"

text \<open>
  The generator's draws in the order of the source, named for the statements about the
  noise: the uniform draw behind \<open>sigmas\<close> is the fourth, the Gaussian draw added to
  \<open>X\<close> for \<open>X_hetero\<close> the fifth.
\<close>

definition rng_after_homo :: "'g library \<Rightarrow> 'g" where
  "rng_after_homo L =
     snd (randn L (snd (randn L (snd (randn L (RandomState L 42) n_features n_features))
       n_samples rank)) n_samples n_features)"

definition sigmas_draw :: "'g library \<Rightarrow> real list" where
  "sigmas_draw L = fst (rand L (rng_after_homo L) n_features)"

definition hetero_noise :: "'g library \<Rightarrow> matrix" where
  "hetero_noise L = fst (randn L (snd (rand L (rng_after_homo L) n_features)) n_samples n_features)"

subsection \<open>The notebook as a state\<close>

text \<open>
  Arrays are objects in a store; a global variable holding an array holds its address,
  so that rebinding a name and changing an array are different things. A new array
  gets the address \<open>next_id\<close>. The field \<open>rng\<close> is the state of the generator
  object, \<open>loop_vars\<close> the globals the last pass of the main loop has bound. Every
  cell replaces its own output (\<open>out_loop\<close>, \<open>out_homo\<close>, \<open>out_hetero\<close>) when it
  runs again.
\<close>

datatype ndarray = Mat matrix | Vec "real list" | IVec "int list"

record figure =
  fig_data :: "scatter list"
  fig_title :: string
  fig_xaxis :: string
  fig_yaxis :: string

record 'g notebook =
  heap :: "nat \<Rightarrow> ndarray option"
  next_id :: nat
  rng :: 'g
  var_U :: nat
  var_X :: nat
  var_X_homo :: nat
  var_sigmas :: nat
  var_X_hetero :: nat
  var_n_components :: nat
  data :: "scatter list list"
  data_i :: nat
  loop_title :: string
  loop_vars :: iteration
  fig :: figure
  out_loop :: "label list"
  out_homo :: "figure option"
  out_hetero :: "figure option"

definition alloc :: "ndarray \<Rightarrow> 'g notebook \<Rightarrow> nat \<times> 'g notebook" where
  "alloc v s = (next_id s, s\<lparr>heap := (heap s)(next_id s \<mapsto> v), next_id := Suc (next_id s)\<rparr>)"

definition get_mat :: "'g notebook \<Rightarrow> nat \<Rightarrow> error + matrix" where
  "get_mat s a = (case heap s a of Some (Mat m) \<Rightarrow> Inr m | _ \<Rightarrow> Inl TypeError)"

definition get_ivec :: "'g notebook \<Rightarrow> nat \<Rightarrow> error + int list" where
  "get_ivec s a = (case heap s a of Some (IVec v) \<Rightarrow> Inr v | _ \<Rightarrow> Inl TypeError)"

definition create_data_cell :: "'g library \<Rightarrow> 'g notebook \<Rightarrow> error + 'g notebook" where
  "create_data_cell L s =
     bind (create_data L) (\<lambda>c.
       let (a_U, s1) = alloc (Mat (new_U c)) (s\<lparr>rng := new_rng c\<rparr>);
           (a_X, s2) = alloc (Mat (new_X c)) s1;
           (a_X_homo, s3) = alloc (Mat (new_X_homo c)) s2;
           (a_sigmas, s4) = alloc (Vec (new_sigmas c)) s3;
           (a_X_hetero, s5) = alloc (Mat (new_X_hetero c)) s4
       in Inr (s5\<lparr>var_U := a_U, var_X := a_X, var_X_homo := a_X_homo,
                   var_sigmas := a_sigmas, var_X_hetero := a_X_hetero\<rparr>))"

text \<open>\<^verbatim>\<open>n_components = np.arange(0, n_features, 5)  # options for n_components\<close>\<close>

definition n_components :: "error + int list" where
  "n_components = arange 0 (int n_features) 5"

definition fit_models_cell :: "'g notebook \<Rightarrow> error + 'g notebook" where
  "fit_models_cell s =
     bind n_components (\<lambda>grid.
       let (a, s1) = alloc (IVec grid) s in Inr (s1\<lparr>var_n_components := a\<rparr>))"

text \<open>
  \<^verbatim>\<open>
  data = [[],[]]
  i = 0
  for X, title in [(X_homo, 'Homoscedastic Noise'),
                   (X_hetero, 'Heteroscedastic Noise')]:
      ... the pass above, on X ...
      data[i].append(...)   # eight times
      i+=1
  \<close>
  The loop variables \<open>X\<close> and \<open>title\<close> are globals of the notebook: each pass
  rebinds the name \<open>X\<close> to the dataset of that pass (the field \<open>var_X\<close>) and
  \<open>title\<close> to its title (the field \<open>loop_title\<close>). The counter \<open>i\<close> is the
  field \<open>data_i\<close>.
\<close>

definition append_at :: "'a list list \<Rightarrow> nat \<Rightarrow> 'a list \<Rightarrow> error + 'a list list" where
  "append_at xss k ys =
     (if k < length xss then Inr (xss[k := xss ! k @ ys]) else Inl IndexError)"

definition loop_pass :: "'g library \<Rightarrow> nat \<times> string \<Rightarrow> 'g notebook \<Rightarrow> error + 'g notebook" where
  "loop_pass L p s =
     (let s1 = s\<lparr>var_X := fst p, loop_title := snd p\<rparr>
      in bind (get_mat s1 (var_X s1)) (\<lambda>X.
         bind (get_ivec s1 (var_n_components s1)) (\<lambda>grid.
         bind (loop_body L grid (int rank) X (loop_title s1)) (\<lambda>it.
         bind (append_at (data s1) (data_i s1) (traces it)) (\<lambda>data'.
           Inr (s1\<lparr>loop_vars := it, out_loop := out_loop s1 @ printed it,
                    data := data', data_i := data_i s1 + 1\<rparr>))))))"

fun for_each :: "('a \<Rightarrow> 's \<Rightarrow> error + 's) \<Rightarrow> 'a list \<Rightarrow> 's \<Rightarrow> error + 's" where
  "for_each f [] s = Inr s"
| "for_each f (a # as) s = bind (f a s) (for_each f as)"

definition plot_results_cell :: "'g library \<Rightarrow> 'g notebook \<Rightarrow> error + 'g notebook" where
  "plot_results_cell L s =
     (let s0 = s\<lparr>data := [[], []], data_i := 0, out_loop := []\<rparr>
      in for_each (loop_pass L)
           [(var_X_homo s0, ''Homoscedastic Noise''),
            (var_X_hetero s0, ''Heteroscedastic Noise'')] s0)"

text \<open>
  \<^verbatim>\<open>
  layout = go.Layout(title='Homoscedastic Noise',
                     xaxis=dict(title='nb of components'),
                     yaxis=dict(title='CV scores'))
  fig = go.Figure(data=data[0], layout = layout)
  py.iplot(fig)
  \<close>
  and the same with \<open>data[1]\<close> and \<open>'Heteroscedastic Noise'\<close>; the figure shown is
  the cell's output.
\<close>

definition make_figure :: "'g notebook \<Rightarrow> nat \<Rightarrow> string \<Rightarrow> error + figure" where
  "make_figure s k t =
     bind (getitem (data s) k) (\<lambda>d.
       Inr \<lparr>fig_data = d, fig_title = t, fig_xaxis = ''nb of components'',
            fig_yaxis = ''CV scores''\<rparr>)"

definition homo_figure_cell :: "'g notebook \<Rightarrow> error + 'g notebook" where
  "homo_figure_cell s =
     bind (make_figure s 0 ''Homoscedastic Noise'') (\<lambda>f.
       Inr (s\<lparr>fig := f, out_homo := Some f\<rparr>))"

definition hetero_figure_cell :: "'g notebook \<Rightarrow> error + 'g notebook" where
  "hetero_figure_cell s =
     bind (make_figure s 1 ''Heteroscedastic Noise'') (\<lambda>f.
       Inr (s\<lparr>fig := f, out_hetero := Some f\<rparr>))"

text \<open>The three cells under "Plot Results", and all cells from top to bottom.\<close>

definition plotting_cells :: "'g library \<Rightarrow> 'g notebook \<Rightarrow> error + 'g notebook" where
  "plotting_cells L s =
     bind (plot_results_cell L s) (\<lambda>s1.
     bind (homo_figure_cell s1) hetero_figure_cell)"

definition pipeline :: "'g library \<Rightarrow> 'g notebook \<Rightarrow> error + 'g notebook" where
  "pipeline L s =
     bind (create_data_cell L s) (\<lambda>s1.
     bind (fit_models_cell s1) (plotting_cells L))"

text \<open>
  What a run shows: the two datasets, the printed lines (the titles and the selected
  component counts), the traces (with the score sequences) and the two figures.
\<close>

definition observe ::
  "'g notebook \<Rightarrow> ndarray option \<times> ndarray option \<times> label list \<times> scatter list list
     \<times> figure option \<times> figure option" where
  "observe s =
     (heap s (var_X_homo s), heap s (var_X_hetero s), out_loop s, data s,
      out_homo s, out_hetero s)"

subsection \<open>What the statements ask of the library\<close>

text \<open>
  The shapes numpy and scipy promise: \<open>randn(rows, cols)\<close> is a \<open>rows\<close> by
  \<open>cols\<close> matrix, \<open>rand(n)\<close> is \<open>n\<close> numbers in the half-open interval from 0
  to 1, and the first factor of the SVD of a matrix with \<open>m\<close> rows is \<open>m\<close> by \<open>m\<close>.
\<close>

definition has_shape :: "matrix \<Rightarrow> nat \<Rightarrow> nat \<Rightarrow> bool" where
  "has_shape M rows cols \<longleftrightarrow> length M = rows \<and> list_all (\<lambda>a. length a = cols) M"

definition generator_contract :: "'g library \<Rightarrow> bool" where
  "generator_contract L \<longleftrightarrow>
     (\<forall>g rows cols. has_shape (fst (randn L g rows cols)) rows cols)
   \<and> (\<forall>g n. length (fst (rand L g n)) = n \<and> list_all (\<lambda>u. 0 \<le> u \<and> u < 1) (fst (rand L g n)))
   \<and> (\<forall>A U. svd_U L A = Inr U \<longrightarrow> has_shape U (length A) (length A))"

subsection \<open>A small library instance for running the definitions\<close>

text \<open>
  A stand-in for the library, small enough to evaluate: the generator state is a
  counter, a Gaussian draw is a constant matrix of the asked shape, a uniform draw is
  constantly one half, the SVD factor is an identity matrix, and the scores are simple
  functions of the hyper-parameter (the PCA score peaks at ten components, the Factor
  Analysis score is flat, the grid search prefers the smallest shrinkage).
\<close>

fun toy_cross_val_score :: "estimator \<Rightarrow> matrix \<Rightarrow> error + real list" where
  "toy_cross_val_score (PCA solver (IntC n)) X = Inr [- \<bar>of_int n - 10\<bar>, - \<bar>of_int n - 10\<bar> - 2]"
| "toy_cross_val_score (FactorAnalysis (IntC n)) X = Inr [3, 4, 5]"
| "toy_cross_val_score (ShrunkCovariance s) X = Inr [s, s + 1]"
| "toy_cross_val_score LedoitWolf X = Inr [7]"
| "toy_cross_val_score e X = Inl (LibraryError 0)"

definition toy_library :: "nat library" where
  "toy_library =
     \<lparr>RandomState = (\<lambda>seed. seed),
      randn = (\<lambda>g rows cols. (replicate rows (replicate cols (real g)), Suc g)),
      rand = (\<lambda>g n. (replicate n (1 / 2), Suc g)),
      svd_U = (\<lambda>A. Inr (map (\<lambda>i. map (\<lambda>j. if i = j then 1 else 0) [0 ..< length A]) [0 ..< length A])),
      cross_val_score = toy_cross_val_score,
      grid_cv_score = (\<lambda>e X. case e of ShrunkCovariance c \<Rightarrow> Inr (- c) | _ \<Rightarrow> Inl (LibraryError 1)),
      pca_mle_rank = (\<lambda>X. Inr 1)\<rparr>"


definition toy_iteration :: iteration where
  "toy_iteration =
     \<lparr>pca_scores = [], fa_scores = [], n_components_pca = 0, n_components_fa = 0,
      n_components_pca_mle = 0, printed = [], traces = []\<rparr>"

definition toy_figure :: figure where
  "toy_figure = \<lparr>fig_data = [], fig_title = [], fig_xaxis = [], fig_yaxis = []\<rparr>"

text \<open>
  A notebook in which the data and the grid exist already: a one-by-one signal matrix
  and datasets, and a grid of three candidates.
\<close>

definition toy_notebook :: "nat notebook" where
  "toy_notebook =
     \<lparr>heap = [0 \<mapsto> Mat [[1]], 1 \<mapsto> Mat [[2]], 2 \<mapsto> Mat [[3]], 3 \<mapsto> Vec [1],
              4 \<mapsto> IVec [0, 10, 20]],
      next_id = 5, rng = 0, var_U = 0, var_X = 0, var_X_homo = 1, var_sigmas = 3,
      var_X_hetero = 2, var_n_components = 4, data = [], data_i = 7, loop_title = [],
      loop_vars = toy_iteration, fig = toy_figure, out_loop = [], out_homo = None,
      out_hetero = None\<rparr>"

section \<open>Properties\<close>

subsection \<open>Auxiliary facts\<close>

lemma bind_Inr_iff: "bind m f = Inr y \<longleftrightarrow> (\<exists>x. m = Inr x \<and> f x = Inr y)"
  by (cases m) simp_all

lemma getitem_Inr_iff: "getitem xs i = Inr v \<longleftrightarrow> i < length xs \<and> v = xs ! i"
  by (auto simp: getitem_def)

lemma compute_scores_loop_ok:
  assumes "\<forall>n\<in>set ns. cross_val_score L (PCA s (IntC n)) X = Inr (sp n)
                     \<and> cross_val_score L (FactorAnalysis (IntC n)) X = Inr (sf n)"
  shows "compute_scores_loop L X ns (PCA s c) (FactorAnalysis c') ps fs
         = Inr (ps @ map (\<lambda>n. np_mean (sp n)) ns, fs @ map (\<lambda>n. np_mean (sf n)) ns)"
  using assms
proof (induction ns arbitrary: c c' ps fs)
  case Nil
  then show ?case by simp
next
  case (Cons n ns)
  then show ?case by (simp add: Let_def)
qed

lemma compute_scores_loop_InrD:
  assumes "compute_scores_loop L X ns (PCA s c) (FactorAnalysis c') ps fs = Inr (p, f)"
  shows "\<exists>sps sfs. length sps = length ns \<and> length sfs = length ns
           \<and> p = ps @ map np_mean sps \<and> f = fs @ map np_mean sfs
           \<and> (\<forall>k<length ns. cross_val_score L (PCA s (IntC (ns ! k))) X = Inr (sps ! k)
                  \<and> cross_val_score L (FactorAnalysis (IntC (ns ! k))) X = Inr (sfs ! k))"
  using assms
proof (induction ns arbitrary: c c' ps fs)
  case Nil
  then show ?case by simp
next
  case (Cons n ns)
  from Cons.prems obtain a b where
    a: "cross_val_score L (PCA s (IntC n)) X = Inr a" and
    b: "cross_val_score L (FactorAnalysis (IntC n)) X = Inr b" and
    rest: "compute_scores_loop L X ns (PCA s (IntC n)) (FactorAnalysis (IntC n))
             (ps @ [np_mean a]) (fs @ [np_mean b]) = Inr (p, f)"
    by (auto simp: Let_def bind_Inr_iff)
  from Cons.IH [OF rest] obtain sps sfs where
    len: "length sps = length ns" "length sfs = length ns" and
    p: "p = (ps @ [np_mean a]) @ map np_mean sps" and
    f: "f = (fs @ [np_mean b]) @ map np_mean sfs" and
    calls: "\<forall>k<length ns. cross_val_score L (PCA s (IntC (ns ! k))) X = Inr (sps ! k)
                  \<and> cross_val_score L (FactorAnalysis (IntC (ns ! k))) X = Inr (sfs ! k)"
    by blast
  have "\<forall>k<length (n # ns). cross_val_score L (PCA s (IntC ((n # ns) ! k))) X = Inr ((a # sps) ! k)
                  \<and> cross_val_score L (FactorAnalysis (IntC ((n # ns) ! k))) X = Inr ((b # sfs) ! k)"
    using a b calls by (auto simp: nth_Cons split: nat.splits)
  moreover have "length (a # sps) = length (n # ns)" "length (b # sfs) = length (n # ns)"
    using len by simp_all
  moreover have "p = ps @ map np_mean (a # sps)" "f = fs @ map np_mean (b # sfs)"
    using p f by simp_all
  ultimately show ?case by blast
qed

lemma compute_scores_InrD:
  assumes "compute_scores L grid X = Inr (p, f)"
  shows "length p = length grid \<and> length f = length grid
         \<and> (\<forall>k<length grid. \<exists>a b.
               cross_val_score L (PCA ''full'' (IntC (grid ! k))) X = Inr a \<and> p ! k = np_mean a
             \<and> cross_val_score L (FactorAnalysis (IntC (grid ! k))) X = Inr b \<and> f ! k = np_mean b)"
proof -
  from compute_scores_loop_InrD [OF assms [unfolded compute_scores_def]]
  obtain sps sfs where
    len: "length sps = length grid" "length sfs = length grid" and
    p: "p = [] @ map np_mean sps" and f: "f = [] @ map np_mean sfs" and
    calls: "\<forall>k<length grid. cross_val_score L (PCA ''full'' (IntC (grid ! k))) X = Inr (sps ! k)
                  \<and> cross_val_score L (FactorAnalysis (IntC (grid ! k))) X = Inr (sfs ! k)"
    by blast
  show ?thesis using len p f calls by simp
qed

lemma loop_body_InrD:
  assumes "loop_body L grid rnk X ttl = Inr it"
  shows "\<exists>i_pca i_fa. compute_scores L grid X = Inr (pca_scores it, fa_scores it)
           \<and> argmax (pca_scores it) = Inr i_pca \<and> i_pca < length grid
           \<and> n_components_pca it = grid ! i_pca
           \<and> argmax (fa_scores it) = Inr i_fa \<and> i_fa < length grid
           \<and> n_components_fa it = grid ! i_fa
           \<and> pca_mle_rank L X = Inr (n_components_pca_mle it)"
  using assms unfolding loop_body_def
  by (auto simp: bind_Inr_iff getitem_Inr_iff)

lemma argmax_scan_inv:
  "mi < length pre \<Longrightarrow> mv = pre ! mi \<Longrightarrow> k = length pre
   \<Longrightarrow> (\<forall>j<length pre. pre ! j \<le> mv) \<Longrightarrow> (\<forall>j<mi. pre ! j < mv)
   \<Longrightarrow> r = argmax_scan rest k mv mi
   \<Longrightarrow> r < length (pre @ rest) \<and> (\<forall>j<length (pre @ rest). (pre @ rest) ! j \<le> (pre @ rest) ! r)
       \<and> (\<forall>j<r. (pre @ rest) ! j < (pre @ rest) ! r)"
proof (induction rest arbitrary: pre mi mv k r)
  case Nil
  then show ?case by simp
next
  case (Cons x rest)
  show ?case
  proof (cases "mv < x")
    case True
    have r: "r = argmax_scan rest (Suc k) x k" using Cons.prems True by simp
    have "r < length ((pre @ [x]) @ rest) \<and>
          (\<forall>j<length ((pre @ [x]) @ rest). ((pre @ [x]) @ rest) ! j \<le> ((pre @ [x]) @ rest) ! r) \<and>
          (\<forall>j<r. ((pre @ [x]) @ rest) ! j < ((pre @ [x]) @ rest) ! r)"
    proof (rule Cons.IH [where mi = k and mv = x and k = "Suc k"])
      show "k < length (pre @ [x])" using Cons.prems by simp
      show "x = (pre @ [x]) ! k" using Cons.prems by (simp add: nth_append)
      show "Suc k = length (pre @ [x])" using Cons.prems by simp
      show "\<forall>j<length (pre @ [x]). (pre @ [x]) ! j \<le> x"
        using Cons.prems True by (auto simp: nth_append less_Suc_eq intro: order_trans less_imp_le)
      show "\<forall>j<k. (pre @ [x]) ! j < x"
        using Cons.prems True by (auto simp: nth_append)
      show "r = argmax_scan rest (Suc k) x k" by (rule r)
    qed
    then show ?thesis by simp
  next
    case False
    have r: "r = argmax_scan rest (Suc k) mv mi" using Cons.prems False by simp
    have "r < length ((pre @ [x]) @ rest) \<and>
          (\<forall>j<length ((pre @ [x]) @ rest). ((pre @ [x]) @ rest) ! j \<le> ((pre @ [x]) @ rest) ! r) \<and>
          (\<forall>j<r. ((pre @ [x]) @ rest) ! j < ((pre @ [x]) @ rest) ! r)"
    proof (rule Cons.IH [where mi = mi and mv = mv and k = "Suc k"])
      show "mi < length (pre @ [x])" using Cons.prems by simp
      show "mv = (pre @ [x]) ! mi" using Cons.prems by (simp add: nth_append)
      show "Suc k = length (pre @ [x])" using Cons.prems by simp
      show "\<forall>j<length (pre @ [x]). (pre @ [x]) ! j \<le> mv"
        using Cons.prems False by (auto simp: nth_append less_Suc_eq)
      show "\<forall>j<mi. (pre @ [x]) ! j < mv"
        using Cons.prems by (auto simp: nth_append)
      show "r = argmax_scan rest (Suc k) mv mi" by (rule r)
    qed
    then show ?thesis by simp
  qed
qed

lemma argmax_first_max:
  assumes "argmax xs = Inr i"
  shows "i < length xs \<and> (\<forall>j<length xs. xs ! j \<le> xs ! i) \<and> (\<forall>j<i. xs ! j < xs ! i)"
proof (cases xs)
  case Nil
  then show ?thesis using assms by simp
next
  case (Cons x ys)
  have i: "i = argmax_scan ys 1 x 0" using assms Cons by simp
  have "i < length ([x] @ ys) \<and> (\<forall>j<length ([x] @ ys). ([x] @ ys) ! j \<le> ([x] @ ys) ! i)
        \<and> (\<forall>j<i. ([x] @ ys) ! j < ([x] @ ys) ! i)"
    by (rule argmax_scan_inv [where mi = 0 and mv = x and k = 1]) (simp_all add: i)
  then show ?thesis using Cons by simp
qed

lemma map_err_ok:
  "\<forall>a\<in>set as. f a = Inr (g a) \<Longrightarrow> map_err f as = Inr (map g as)"
  by (induction as) simp_all

lemma argmax_returns: "xs \<noteq> [] \<Longrightarrow> \<exists>i. argmax xs = Inr i"
  by (cases xs) simp_all

lemma py_min_returns: "xs \<noteq> [] \<Longrightarrow> \<exists>m. py_min xs = Inr m"
  by (cases xs) simp_all

lemma py_max_returns: "xs \<noteq> [] \<Longrightarrow> \<exists>m. py_max xs = Inr m"
  by (cases xs) simp_all

lemma length_shrinkages: "length shrinkages = 30"
  by (simp add: shrinkages_def logspace_def linspace_def)

lemma nth_shrinkages: "k < 30 \<Longrightarrow> shrinkages ! k = 10 powr (- 2 + real k * (2 / 29))"
  by (simp add: shrinkages_def logspace_def linspace_def)

lemma shrinkages_ratio:
  assumes "k < 29"
  shows "shrinkages ! Suc k = shrinkages ! k * 10 powr (2 / 29)"
proof -
  have e: "- 2 + real (Suc k) * (2 / 29) = (- 2 + real k * (2 / 29)) + 2 / (29::real)"
    by (simp add: algebra_simps)
  have "shrinkages ! Suc k = 10 powr (- 2 + real (Suc k) * (2 / 29))"
    using assms by (intro nth_shrinkages) simp
  also have "\<dots> = 10 powr (- 2 + real k * (2 / 29)) * 10 powr (2 / 29)"
    unfolding e by (rule powr_add)
  also have "10 powr (- 2 + real k * (2 / 29)) = shrinkages ! k"
    using assms by (intro nth_shrinkages [symmetric]) simp
  finally show ?thesis .
qed

lemma shrinkages_bounds:
  assumes "k < 30"
  shows "1 / 100 \<le> shrinkages ! k \<and> shrinkages ! k \<le> 1"
proof -
  have lo: "(- 2 :: real) \<le> - 2 + real k * (2 / 29)" by simp
  have "real k \<le> 29" using assms by simp
  then have hi: "- 2 + real k * (2 / 29) \<le> (0::real)" by simp
  have "(10::real) powr (- 2) \<le> 10 powr (- 2 + real k * (2 / 29))"
    using lo by (intro powr_mono) simp_all
  moreover have "(10::real) powr (- 2 + real k * (2 / 29)) \<le> 10 powr 0"
    using hi by (intro powr_mono) simp_all
  moreover have "(10::real) powr (- 2) = 1 / 100" by (simp add: powr_minus_divide)
  ultimately show ?thesis using assms by (simp add: nth_shrinkages)
qed

lemma shrunk_cov_score_returns:
  assumes gs: "\<forall>c\<in>set shrinkages. grid_cv_score L (ShrunkCovariance c) X = Inr (q c)"
      and cv: "\<forall>c\<in>set shrinkages. cross_val_score L (ShrunkCovariance c) X = Inr (folds c)"
  shows "\<exists>k<length shrinkages. argmax (map q shrinkages) = Inr k
           \<and> shrunk_cov_score L X = Inr (np_mean (folds (shrinkages ! k)))"
proof -
  have scores: "map_err (\<lambda>v. grid_cv_score L (set_shrinkage (ShrunkCovariance (1 / 10)) v) X) shrinkages
                = Inr (map q shrinkages)"
    using gs by (intro map_err_ok) simp
  have "map q shrinkages \<noteq> []" using length_shrinkages by auto
  then obtain k where k: "argmax (map q shrinkages) = Inr k" using argmax_returns by blast
  from argmax_first_max [OF k] have klt: "k < length shrinkages" by simp
  then have "shrinkages ! k \<in> set shrinkages" by simp
  with cv have "cross_val_score L (ShrunkCovariance (shrinkages ! k)) X = Inr (folds (shrinkages ! k))"
    by blast
  then have "shrunk_cov_score L X = Inr (np_mean (folds (shrinkages ! k)))"
    using scores k klt
    by (simp add: shrunk_cov_score_def GridSearchCV_best_estimator_def getitem_def)
  with k klt show ?thesis by blast
qed

lemma loop_body_returns:
  assumes grid: "grid \<noteq> []"
      and cvs: "\<forall>n\<in>set grid. cross_val_score L (PCA ''full'' (IntC n)) X = Inr (sp n)
                     \<and> cross_val_score L (FactorAnalysis (IntC n)) X = Inr (sf n)"
      and mle: "pca_mle_rank L X = Inr m"
      and gs: "\<forall>c\<in>set shrinkages. grid_cv_score L (ShrunkCovariance c) X = Inr (q c)"
      and cv: "\<forall>c\<in>set shrinkages. cross_val_score L (ShrunkCovariance c) X = Inr (folds c)"
      and lw: "cross_val_score L LedoitWolf X = Inr w"
  shows "\<exists>it. loop_body L grid rnk X ttl = Inr it"
proof -
  let ?ps = "map (\<lambda>n. np_mean (sp n)) grid" and ?fs = "map (\<lambda>n. np_mean (sf n)) grid"
  have cs: "compute_scores L grid X = Inr (?ps, ?fs)"
    unfolding compute_scores_def using compute_scores_loop_ok [OF cvs, of NoneC NoneC "[]" "[]"]
    by simp
  have ne: "?ps \<noteq> []" "?fs \<noteq> []" using grid by simp_all
  obtain ip where ip: "argmax ?ps = Inr ip" using argmax_returns [OF ne(1)] by blast
  obtain jf where jf: "argmax ?fs = Inr jf" using argmax_returns [OF ne(2)] by blast
  have ipl: "ip < length grid" using argmax_first_max [OF ip] by simp
  have jfl: "jf < length grid" using argmax_first_max [OF jf] by simp
  obtain lo where lo: "py_min ?ps = Inr lo" using py_min_returns [OF ne(1)] by blast
  obtain hi where hi: "py_max ?fs = Inr hi" using py_max_returns [OF ne(2)] by blast
  obtain glo where glo: "py_min grid = Inr glo" using py_min_returns [OF grid] by blast
  obtain ghi where ghi: "py_max grid = Inr ghi" using py_max_returns [OF grid] by blast
  obtain v where v: "shrunk_cov_score L X = Inr v"
    using shrunk_cov_score_returns [OF gs cv] by blast
  have lws: "lw_score L X = Inr (np_mean w)" using lw by (simp add: lw_score_def)
  show ?thesis
    unfolding loop_body_def
    by (simp add: cs ip jf ipl jfl getitem_def mle lo hi glo ghi v lws)
qed

lemma n_components_value: "n_components = Inr [0, 5, 10, 15, 20, 25, 30, 35, 40, 45]"
  by (simp add: n_components_def n_features_def arange_def upt_rec)

lemma argmax_Max:
  assumes "argmax xs = Inr i"
  shows "xs ! i = Max (set xs)"
proof -
  from argmax_first_max [OF assms] have i: "i < length xs" and
    le: "\<forall>j<length xs. xs ! j \<le> xs ! i" by simp_all
  have "Max (set xs) = xs ! i"
  proof (rule Max_eqI)
    show "finite (set xs)" by simp
    show "xs ! i \<in> set xs" using i by simp
    fix y assume "y \<in> set xs"
    then obtain j where "j < length xs" "y = xs ! j" by (auto simp: in_set_conv_nth)
    then show "y \<le> xs ! i" using le by simp
  qed
  then show ?thesis by simp
qed

subsection \<open>The component-count grid\<close>

text \<open>
  Claim C4, as the code has it. The grid \<open>np.arange(0, n_features, 5)\<close> has ten
  candidates: it starts at 0, each candidate is 5 more than the one before, and every
  candidate is below the feature count 50; the last one is 45, five short of the
  feature count, because the stop bound of \<open>np.arange\<close> is exclusive.
\<close>

theorem n_components_grid:
  "\<exists>g. n_components = Inr g \<and> length g = 10 \<and> hd g = 0 \<and> last g = int n_features - 5
       \<and> (\<forall>k<9. g ! Suc k = g ! k + 5) \<and> (\<forall>n\<in>set g. 0 \<le> n \<and> n < int n_features)"
proof -
  let ?g = "[0, 5, 10, 15, 20, 25, 30, 35, 40, 45] :: int list"
  have step: "\<forall>k<9. ?g ! Suc k = ?g ! k + 5"
  proof (intro allI impI)
    fix k :: nat assume "k < 9"
    then have "k \<in> {0, 1, 2, 3, 4, 5, 6, 7, 8}" by auto
    then show "?g ! Suc k = ?g ! k + 5" by auto
  qed
  have below: "\<forall>n\<in>set ?g. 0 \<le> n \<and> n < int n_features" by (simp add: n_features_def)
  have ends: "length ?g = 10" "hd ?g = 0" "last ?g = int n_features - 5"
    by (simp_all add: n_features_def)
  show ?thesis
    by (rule exI [of _ ?g]) (intro conjI n_components_value ends step below)
qed

theorem n_components_grid_witness:
  "\<exists>g. n_components = Inr g \<and> (3::nat) < 9 \<and> g ! Suc 3 = g ! 3 + 5
       \<and> g ! 3 \<in> set g \<and> 0 \<le> g ! 3 \<and> g ! 3 < int n_features"
proof -
  from n_components_grid obtain g where g: "n_components = Inr g" and len: "length g = 10"
    and step: "\<forall>k<9. g ! Suc k = g ! k + 5"
    and below: "\<forall>n\<in>set g. 0 \<le> n \<and> n < int n_features"
    by blast
  have three: "(3::nat) < 9" by simp
  have mem: "g ! 3 \<in> set g" using len by simp
  have s3: "g ! Suc 3 = g ! 3 + 5" using step three by blast
  have b3: "0 \<le> g ! 3" "g ! 3 < int n_features" using below mem by blast+
  show ?thesis
    by (rule exI [of _ g]) (intro conjI g three s3 mem b3)
qed

text \<open>
  Claim C4 as stated has the grid reach the feature count. It does not: the grid is the
  ten values below, and the feature count 50 is not one of them.
\<close>

theorem n_components_excludes_n_features:
  "n_components = Inr [0, 5, 10, 15, 20, 25, 30, 35, 40, 45]
   \<and> int n_features \<notin> set [0, 5, 10, 15, 20, 25, 30, 35, 40, 45]"
  using n_components_value by (simp add: n_features_def)

subsection \<open>The score computer returns aligned sequences\<close>

text \<open>
  Claim C2. Whenever the library's cross-validation returns fold scores for the two
  models at every grid value, \<open>compute_scores\<close> returns two sequences as long as the
  grid, and the entry at each index is the mean of the fold scores of the model with
  exactly the grid's component count at that index.
\<close>

theorem compute_scores_aligned:
  assumes "\<forall>n\<in>set grid. cross_val_score L (PCA ''full'' (IntC n)) X = Inr (sp n)
                        \<and> cross_val_score L (FactorAnalysis (IntC n)) X = Inr (sf n)"
  shows "\<exists>ps fs. compute_scores L grid X = Inr (ps, fs)
           \<and> length ps = length grid \<and> length fs = length grid
           \<and> (\<forall>i<length grid. ps ! i = np_mean (sp (grid ! i)) \<and> fs ! i = np_mean (sf (grid ! i)))"
proof -
  have "compute_scores L grid X
        = Inr (map (\<lambda>n. np_mean (sp n)) grid, map (\<lambda>n. np_mean (sf n)) grid)"
    unfolding compute_scores_def
    using compute_scores_loop_ok [OF assms, of NoneC NoneC "[]" "[]"] by simp
  then show ?thesis by simp
qed

theorem compute_scores_aligned_witness:
  "\<exists>ps fs. compute_scores toy_library [0, 5, 10] [[1]] = Inr (ps, fs)
      \<and> length ps = 3 \<and> length fs = 3 \<and> ps ! 1 = - 6 \<and> fs ! 1 = 4"
proof -
  have h: "\<forall>n\<in>set [0, 5, 10].
             cross_val_score toy_library (PCA ''full'' (IntC n)) [[1]]
               = Inr [- \<bar>of_int n - 10\<bar>, - \<bar>of_int n - 10\<bar> - 2]
           \<and> cross_val_score toy_library (FactorAnalysis (IntC n)) [[1]] = Inr [3, 4, 5]"
    by (simp add: toy_library_def)
  from compute_scores_aligned [OF h] show ?thesis
    by (auto simp: np_mean_def)
qed

subsection \<open>The selected component counts\<close>

text \<open>The stand-in library completes a pass of the loop on every grid that is not empty.\<close>

lemma toy_loop_body_returns:
  assumes "grid \<noteq> []"
  shows "\<exists>it. loop_body toy_library grid rnk X ttl = Inr it"
proof (rule loop_body_returns)
  show "grid \<noteq> []" by (rule assms)
  show "\<forall>n\<in>set grid.
          cross_val_score toy_library (PCA ''full'' (IntC n)) X
            = Inr [- \<bar>of_int n - 10\<bar>, - \<bar>of_int n - 10\<bar> - 2]
        \<and> cross_val_score toy_library (FactorAnalysis (IntC n)) X = Inr [3, 4, 5]"
    by (simp add: toy_library_def)
  show "pca_mle_rank toy_library X = Inr 1" by (simp add: toy_library_def)
  show "\<forall>c\<in>set shrinkages. grid_cv_score toy_library (ShrunkCovariance c) X = Inr (- c)"
    by (simp add: toy_library_def)
  show "\<forall>c\<in>set shrinkages. cross_val_score toy_library (ShrunkCovariance c) X = Inr [c, c + 1]"
    by (simp add: toy_library_def)
  show "cross_val_score toy_library LedoitWolf X = Inr [7]" by (simp add: toy_library_def)
qed

lemma toy_compute_scores:
  "compute_scores toy_library [0, 10, 20] [[1]] = Inr ([- 11, - 1, - 11], [4, 4, 4])"
  by (simp add: compute_scores_def toy_library_def np_mean_def)

text \<open>
  Claim C6. In every pass of the main loop that completes, the component count
  reported for PCA is the grid value at \<open>np.argmax(pca_scores)\<close>, the one reported
  for Factor Analysis the grid value at \<open>np.argmax(fa_scores)\<close>; the score at that
  index is the maximum of the sequence, and every score of a sequence is the sum of the
  per-fold cross-validation scores of the model with that grid value divided by the
  number of folds.
\<close>

theorem best_component_counts:
  assumes "loop_body L grid rnk X ttl = Inr it"
  shows "\<exists>i_pca<length grid. \<exists>i_fa<length grid.
           argmax (pca_scores it) = Inr i_pca \<and> n_components_pca it = grid ! i_pca
         \<and> pca_scores it ! i_pca = Max (set (pca_scores it))
         \<and> argmax (fa_scores it) = Inr i_fa \<and> n_components_fa it = grid ! i_fa
         \<and> fa_scores it ! i_fa = Max (set (fa_scores it))
         \<and> (\<forall>k<length grid. \<exists>a b.
               cross_val_score L (PCA ''full'' (IntC (grid ! k))) X = Inr a
             \<and> pca_scores it ! k = sum_list a / real (length a)
             \<and> cross_val_score L (FactorAnalysis (IntC (grid ! k))) X = Inr b
             \<and> fa_scores it ! k = sum_list b / real (length b))"
proof -
  from loop_body_InrD [OF assms] obtain i_pca i_fa where
    cs: "compute_scores L grid X = Inr (pca_scores it, fa_scores it)" and
    ip: "argmax (pca_scores it) = Inr i_pca" "i_pca < length grid"
        "n_components_pca it = grid ! i_pca" and
    jf: "argmax (fa_scores it) = Inr i_fa" "i_fa < length grid"
        "n_components_fa it = grid ! i_fa"
    by blast
  have means: "\<forall>k<length grid. \<exists>a b.
               cross_val_score L (PCA ''full'' (IntC (grid ! k))) X = Inr a
             \<and> pca_scores it ! k = sum_list a / real (length a)
             \<and> cross_val_score L (FactorAnalysis (IntC (grid ! k))) X = Inr b
             \<and> fa_scores it ! k = sum_list b / real (length b)"
    using compute_scores_InrD [OF cs] by (simp add: np_mean_def)
  show ?thesis
    using ip jf argmax_Max [OF ip(1)] argmax_Max [OF jf(1)] means by blast
qed

theorem best_component_counts_witness:
  "\<exists>it. loop_body toy_library [0, 10, 20] 10 [[1]] ''t'' = Inr it
      \<and> pca_scores it = [- 11, - 1, - 11] \<and> n_components_pca it = 10
      \<and> fa_scores it = [4, 4, 4] \<and> n_components_fa it = 0"
proof -
  obtain it where it: "loop_body toy_library [0, 10, 20] 10 [[1]] ''t'' = Inr it"
    using toy_loop_body_returns [of "[0, 10, 20]"] by blast
  from loop_body_InrD [OF it] toy_compute_scores
  have ps: "pca_scores it = [- 11, - 1, - 11]" and fs: "fa_scores it = [4, 4, 4]" by auto
  from best_component_counts [OF it] obtain i_pca i_fa where
    "argmax (pca_scores it) = Inr i_pca" "n_components_pca it = [0, 10, 20] ! i_pca"
    "argmax (fa_scores it) = Inr i_fa" "n_components_fa it = [0, 10, 20] ! i_fa"
    by blast
  then have "n_components_pca it = 10" "n_components_fa it = 0"
    using ps fs by auto
  then show ?thesis using it ps fs by blast
qed

text \<open>
  Claim C10. The index \<open>np.argmax\<close> selects is the lowest index at which the
  maximal mean score is attained: for every grid point whose score is maximal, the
  selected index is at most its index, and, the grid being sorted, the selected
  component count is at most its component count.
\<close>

theorem argmax_ties_lowest:
  assumes "loop_body L grid rnk X ttl = Inr it" and "sorted grid"
  shows "(\<exists>i<length grid. n_components_pca it = grid ! i
            \<and> (\<forall>j<length grid. pca_scores it ! j \<le> pca_scores it ! i)
            \<and> (\<forall>k<length grid. (\<forall>j<length grid. pca_scores it ! j \<le> pca_scores it ! k)
                   \<longrightarrow> i \<le> k \<and> n_components_pca it \<le> grid ! k))
       \<and> (\<exists>i<length grid. n_components_fa it = grid ! i
            \<and> (\<forall>j<length grid. fa_scores it ! j \<le> fa_scores it ! i)
            \<and> (\<forall>k<length grid. (\<forall>j<length grid. fa_scores it ! j \<le> fa_scores it ! k)
                   \<longrightarrow> i \<le> k \<and> n_components_fa it \<le> grid ! k))"
proof -
  from loop_body_InrD [OF assms(1)] obtain i_pca i_fa where
    cs: "compute_scores L grid X = Inr (pca_scores it, fa_scores it)" and
    ip: "argmax (pca_scores it) = Inr i_pca" "i_pca < length grid"
        "n_components_pca it = grid ! i_pca" and
    jf: "argmax (fa_scores it) = Inr i_fa" "i_fa < length grid"
        "n_components_fa it = grid ! i_fa"
    by blast
  from compute_scores_InrD [OF cs] have len: "length (pca_scores it) = length grid"
    "length (fa_scores it) = length grid" by simp_all
  have first: "\<And>xs i. argmax xs = Inr i \<Longrightarrow> length xs = length grid \<Longrightarrow>
      (\<forall>j<length grid. xs ! j \<le> xs ! i)
      \<and> (\<forall>k<length grid. (\<forall>j<length grid. xs ! j \<le> xs ! k) \<longrightarrow> i \<le> k \<and> grid ! i \<le> grid ! k)"
  proof -
    fix xs :: "real list" and i
    assume a: "argmax xs = Inr i" and l: "length xs = length grid"
    from argmax_first_max [OF a] have il: "i < length xs"
      and le: "\<forall>j<length xs. xs ! j \<le> xs ! i" and lt: "\<forall>j<i. xs ! j < xs ! i" by simp_all
    have "\<forall>k<length grid. (\<forall>j<length grid. xs ! j \<le> xs ! k) \<longrightarrow> i \<le> k \<and> grid ! i \<le> grid ! k"
    proof (intro allI impI)
      fix k assume k: "k < length grid" and mx: "\<forall>j<length grid. xs ! j \<le> xs ! k"
      have ik: "i \<le> k"
      proof (rule ccontr)
        assume "\<not> i \<le> k"
        then have "k < i" by simp
        with lt have "xs ! k < xs ! i" by simp
        moreover from mx il l have "xs ! i \<le> xs ! k" by simp
        ultimately show False by simp
      qed
      moreover have "grid ! i \<le> grid ! k"
        using assms(2) ik k by (simp add: sorted_nth_mono)
      ultimately show "i \<le> k \<and> grid ! i \<le> grid ! k" by simp
    qed
    then show "(\<forall>j<length grid. xs ! j \<le> xs ! i)
      \<and> (\<forall>k<length grid. (\<forall>j<length grid. xs ! j \<le> xs ! k) \<longrightarrow> i \<le> k \<and> grid ! i \<le> grid ! k)"
      using le l by simp
  qed
  from first [OF ip(1) len(1)] ip(2,3) have A:
    "\<exists>i<length grid. n_components_pca it = grid ! i
            \<and> (\<forall>j<length grid. pca_scores it ! j \<le> pca_scores it ! i)
            \<and> (\<forall>k<length grid. (\<forall>j<length grid. pca_scores it ! j \<le> pca_scores it ! k)
                   \<longrightarrow> i \<le> k \<and> n_components_pca it \<le> grid ! k)"
    by auto
  from first [OF jf(1) len(2)] jf(2,3) have B:
    "\<exists>i<length grid. n_components_fa it = grid ! i
            \<and> (\<forall>j<length grid. fa_scores it ! j \<le> fa_scores it ! i)
            \<and> (\<forall>k<length grid. (\<forall>j<length grid. fa_scores it ! j \<le> fa_scores it ! k)
                   \<longrightarrow> i \<le> k \<and> n_components_fa it \<le> grid ! k)"
    by auto
  from A B show ?thesis by (rule conjI)
qed

theorem argmax_ties_lowest_witness:
  "\<exists>it. loop_body toy_library [0, 10, 20] 10 [[1]] ''t'' = Inr it \<and> sorted [0, 10, 20 :: int]
      \<and> fa_scores it = [4, 4, 4] \<and> n_components_fa it = 0"
proof -
  obtain it where it: "loop_body toy_library [0, 10, 20] 10 [[1]] ''t'' = Inr it"
    using toy_loop_body_returns [of "[0, 10, 20]"] by blast
  have srt: "sorted [0, 10, 20 :: int]" by simp
  from loop_body_InrD [OF it] toy_compute_scores
  have fs: "fa_scores it = [4, 4, 4]" by auto
  from argmax_ties_lowest [OF it srt] obtain i where
    i: "i < length [0, 10, 20 :: int]" "n_components_fa it = [0, 10, 20] ! i" and
    low: "\<forall>k<length [0, 10, 20 :: int]. (\<forall>j<length [0, 10, 20 :: int]. fa_scores it ! j \<le> fa_scores it ! k)
            \<longrightarrow> i \<le> k \<and> n_components_fa it \<le> [0, 10, 20] ! k"
    by blast
  have "\<forall>j<length [0, 10, 20 :: int]. fa_scores it ! j \<le> fa_scores it ! 0"
    using fs by (auto simp: nth_Cons split: nat.splits)
  with low have "i \<le> 0" by auto
  with i have "n_components_fa it = 0" by simp
  with it srt fs show ?thesis by blast
qed

subsection \<open>The shrinkage baseline\<close>

text \<open>
  Claim C7. \<open>shrunk_cov_score\<close> searches exactly 30 candidates, spaced
  logarithmically from \<open>10^-2\<close> to \<open>10^0\<close> (each is the one before times
  \<open>10^(2/29)\<close>). Whenever the library scores every candidate, the estimator chosen
  has a candidate's shrinkage whose cross-validated score is at least that of every
  candidate, and the result is one number: the sum of the chosen estimator's per-fold
  cross-validation scores divided by the number of folds.
\<close>

theorem shrunk_cov_score_search:
  assumes gs: "\<forall>c\<in>set shrinkages. grid_cv_score L (ShrunkCovariance c) X = Inr (q c)"
      and cv: "\<forall>c\<in>set shrinkages. cross_val_score L (ShrunkCovariance c) X = Inr (folds c)"
  shows "length shrinkages = 30 \<and> shrinkages ! 0 = 1 / 100 \<and> shrinkages ! 29 = 1
       \<and> (\<forall>k<29. shrinkages ! Suc k = shrinkages ! k * 10 powr (2 / 29))
       \<and> (\<forall>k<30. 1 / 100 \<le> shrinkages ! k \<and> shrinkages ! k \<le> 1)
       \<and> (\<exists>s\<in>set shrinkages. (\<forall>c\<in>set shrinkages. q c \<le> q s)
             \<and> shrunk_cov_score L X = Inr (sum_list (folds s) / real (length (folds s))))"
proof -
  have first: "shrinkages ! 0 = 1 / 100"
    by (simp add: nth_shrinkages powr_minus_divide)
  have last: "shrinkages ! 29 = 1"
    by (simp add: nth_shrinkages)
  from shrunk_cov_score_returns [OF gs cv] obtain k where
    k: "k < length shrinkages" and am: "argmax (map q shrinkages) = Inr k" and
    v: "shrunk_cov_score L X = Inr (np_mean (folds (shrinkages ! k)))"
    by blast
  have best: "\<forall>c\<in>set shrinkages. q c \<le> q (shrinkages ! k)"
  proof
    fix c assume "c \<in> set shrinkages"
    then obtain j where j: "j < length shrinkages" "c = shrinkages ! j"
      by (auto simp: in_set_conv_nth)
    from argmax_first_max [OF am] j(1) k
    have "map q shrinkages ! j \<le> map q shrinkages ! k" by simp
    then show "q c \<le> q (shrinkages ! k)" using j k by simp
  qed
  have "\<exists>s\<in>set shrinkages. (\<forall>c\<in>set shrinkages. q c \<le> q s)
             \<and> shrunk_cov_score L X = Inr (sum_list (folds s) / real (length (folds s)))"
    using k best v by (intro bexI [of _ "shrinkages ! k"]) (simp_all add: np_mean_def)
  then show ?thesis
    using length_shrinkages first last shrinkages_ratio shrinkages_bounds by blast
qed

theorem shrunk_cov_score_search_witness:
  "length shrinkages = 30 \<and> 1 / 100 \<in> set shrinkages
   \<and> shrunk_cov_score toy_library [[1]] = Inr (sum_list [1 / 100, 1 / 100 + 1] / real (length [1 / 100, 1 / 100 + 1 :: real]))"
proof -
  have gs: "\<forall>c\<in>set shrinkages. grid_cv_score toy_library (ShrunkCovariance c) [[1]] = Inr (- c)"
    by (simp add: toy_library_def)
  have cv: "\<forall>c\<in>set shrinkages. cross_val_score toy_library (ShrunkCovariance c) [[1]] = Inr [c, c + 1]"
    by (simp add: toy_library_def)
  from shrunk_cov_score_search [OF gs cv] obtain s where
    len: "length shrinkages = 30" and first: "shrinkages ! 0 = 1 / 100" and
    lo: "\<forall>k<30. 1 / 100 \<le> shrinkages ! k \<and> shrinkages ! k \<le> 1" and
    s: "s \<in> set shrinkages" and best: "\<forall>c\<in>set shrinkages. - c \<le> - s" and
    v: "shrunk_cov_score toy_library [[1]] = Inr (sum_list [s, s + 1] / real (length [s, s + 1]))"
    by blast
  have "shrinkages ! 0 \<in> set shrinkages"
    using len by (intro nth_mem) simp
  then have mem: "1 / 100 \<in> set shrinkages"
    unfolding first .
  with best have "s \<le> 1 / 100" by fastforce
  moreover from s obtain k where "k < 30" "s = shrinkages ! k"
    using len by (auto simp: in_set_conv_nth)
  with lo have "1 / 100 \<le> s" by simp
  ultimately have "s = 1 / 100" by simp
  with len mem v show ?thesis by simp
qed

subsection \<open>Rounding to double precision\<close>














subsection \<open>The synthetic data\<close>

lemma has_shape_nth: "has_shape M r c \<Longrightarrow> i < r \<Longrightarrow> length (M ! i) = c"
  by (simp add: has_shape_def list_all_length)

lemma has_shapeI: "length M = r \<Longrightarrow> (\<And>i. i < r \<Longrightarrow> length (M ! i) = c) \<Longrightarrow> has_shape M r c"
  by (simp add: has_shape_def list_all_length)

lemma transpose_shape:
  assumes "has_shape M r c" and "0 < r"
  shows "has_shape (transpose M) c r"
proof -
  have t: "transpose M = map (\<lambda>i. map (\<lambda>j. M ! j ! i) [0..<length M]) [0..<c]"
  proof (rule transpose_rectangle)
    assume "M = []"
    with assms show "c = 0" by (simp add: has_shape_def)
  next
    fix i assume "i < length M"
    with assms show "length (M ! i) = c" by (simp add: has_shape_def list_all_length)
  qed
  show ?thesis unfolding t using assms(1) by (simp add: has_shape_def list_all_length)
qed

lemma dot_shape:
  assumes A: "has_shape A r k" and B: "has_shape B k c" and k: "0 < k"
  shows "\<exists>P. dot A B = Inr P \<and> has_shape P r c"
proof -
  have ok: "list_all (\<lambda>a. length a = length B) A"
    using A B by (simp add: has_shape_def)
  from transpose_shape [OF B k] have "length (transpose B) = c" by (simp add: has_shape_def)
  then have "has_shape (map (\<lambda>a. map (\<lambda>b. sum_list (map2 (*) a b)) (transpose B)) A) r c"
    using A by (simp add: has_shape_def list_all_length)
  then show ?thesis using ok by (simp add: dot_def)
qed

lemma mat_add_shape:
  assumes A: "has_shape A r c" and B: "has_shape B r c"
  shows "\<exists>S. mat_add A B = Inr S \<and> has_shape S r c
           \<and> (\<forall>i<r. \<forall>j<c. S ! i ! j = A ! i ! j + B ! i ! j)"
proof -
  have len: "length A = r" "length B = r" using A B by (simp_all add: has_shape_def)
  have rows: "\<And>i. i < r \<Longrightarrow> length (A ! i) = c \<and> length (B ! i) = c"
    using A B by (simp add: has_shape_nth)
  have ok: "list_all2 (\<lambda>a b. length a = length b) A B"
    using len rows by (simp add: list_all2_conv_all_nth)
  let ?S = "map2 (map2 (+)) A B"
  have S: "mat_add A B = Inr ?S" using ok len by (simp add: mat_add_def)
  have shape: "has_shape ?S r c" using len rows by (intro has_shapeI) simp_all
  have "\<forall>i<r. \<forall>j<c. ?S ! i ! j = A ! i ! j + B ! i ! j"
    using len rows by simp
  with S shape show ?thesis by blast
qed

lemma scalar_mul_shape: "has_shape A r c \<Longrightarrow> has_shape (scalar_mul s A) r c"
  by (simp add: has_shape_def scalar_mul_def list_all_length)

lemma mul_broadcast_shape:
  assumes A: "has_shape A r c" and v: "length v = c"
  shows "\<exists>P. mul_broadcast A v = Inr P \<and> has_shape P r c
           \<and> (\<forall>i<r. \<forall>j<c. P ! i ! j = A ! i ! j * v ! j)"
proof -
  have len: "length A = r" using A by (simp add: has_shape_def)
  have rows: "\<And>i. i < r \<Longrightarrow> length (A ! i) = c" using A by (simp add: has_shape_nth)
  have ok: "list_all (\<lambda>a. length a = length v) A" using A v by (simp add: has_shape_def)
  let ?P = "map (\<lambda>a. map2 (*) a v) A"
  have P: "mul_broadcast A v = Inr ?P" using ok by (simp add: mul_broadcast_def)
  have shape: "has_shape ?P r c" using len rows v by (intro has_shapeI) simp_all
  have "\<forall>i<r. \<forall>j<c. ?P ! i ! j = A ! i ! j * v ! j" using len rows v by simp
  with P shape show ?thesis by blast
qed

lemma create_data_returns:
  assumes gc: "generator_contract L"
      and svd: "svd_U L (fst (randn L (RandomState L 42) n_features n_features)) = Inr U"
  shows "\<exists>c. create_data L = Inr c
           \<and> has_shape (new_X c) n_samples n_features
           \<and> has_shape (new_X_homo c) n_samples n_features
           \<and> has_shape (new_X_hetero c) n_samples n_features
           \<and> new_sigmas c = map (\<lambda>u. fl (fl (sigma * u) + fl (sigma / 2))) (sigmas_draw L)
           \<and> (\<forall>i<n_samples. \<forall>j<n_features.
                 new_X_hetero c ! i ! j = new_X c ! i ! j + hetero_noise L ! i ! j * new_sigmas c ! j)"
proof -
  obtain A g1 where d1: "randn L (RandomState L 42) n_features n_features = (A, g1)"
    by (cases "randn L (RandomState L 42) n_features n_features")
  obtain C g2 where d2: "randn L g1 n_samples rank = (C, g2)"
    by (cases "randn L g1 n_samples rank")
  obtain Z1 g3 where d3: "randn L g2 n_samples n_features = (Z1, g3)"
    by (cases "randn L g2 n_samples n_features")
  obtain r g4 where d4: "rand L g3 n_features = (r, g4)"
    by (cases "rand L g3 n_features")
  obtain Z2 g5 where d5: "randn L g4 n_samples n_features = (Z2, g5)"
    by (cases "randn L g4 n_samples n_features")
  have shape_randn: "\<And>g rows cols. has_shape (fst (randn L g rows cols)) rows cols"
    using gc by (simp add: generator_contract_def)
  have sA: "has_shape A n_features n_features" using shape_randn [of "RandomState L 42" n_features n_features] by (simp add: d1)
  have sC: "has_shape C n_samples rank" using shape_randn [of g1 n_samples rank] by (simp add: d2)
  have sZ1: "has_shape Z1 n_samples n_features" using shape_randn [of g2 n_samples n_features] by (simp add: d3)
  have sZ2: "has_shape Z2 n_samples n_features" using shape_randn [of g4 n_samples n_features] by (simp add: d5)
  have "length (fst (rand L g3 n_features)) = n_features"
    using gc by (simp add: generator_contract_def)
  then have lr: "length r = n_features" by (simp add: d4)
  have svdA: "svd_U L A = Inr U" using svd d1 by simp
  have "has_shape U (length A) (length A)" using gc svdA by (simp add: generator_contract_def)
  then have sU: "has_shape U n_features n_features" using sA by (simp add: has_shape_def)
  have sUr: "has_shape (map (take rank) U) n_features rank"
    using sU by (simp add: has_shape_def list_all_length n_features_def rank_def)
  have sB: "has_shape (transpose (map (take rank) U)) rank n_features"
    by (rule transpose_shape [OF sUr]) (simp add: n_features_def)
  obtain X where X: "dot C (transpose (map (take rank) U)) = Inr X"
    and sX: "has_shape X n_samples n_features"
    using dot_shape [OF sC sB] by (auto simp: rank_def)
  obtain Xh where Xh: "mat_add X (scalar_mul sigma Z1) = Inr Xh"
    and sXh: "has_shape Xh n_samples n_features"
    using mat_add_shape [OF sX scalar_mul_shape [OF sZ1]] by blast
  let ?sg = "map (\<lambda>u. fl (fl (sigma * u) + fl (sigma / 2))) r"
  have lsg: "length ?sg = n_features" using lr by simp
  obtain N where N: "mul_broadcast Z2 ?sg = Inr N" and sN: "has_shape N n_samples n_features"
    and Nij: "\<forall>i<n_samples. \<forall>j<n_features. N ! i ! j = Z2 ! i ! j * ?sg ! j"
    using mul_broadcast_shape [OF sZ2 lsg] by blast
  obtain Xe where Xe: "mat_add X N = Inr Xe" and sXe: "has_shape Xe n_samples n_features"
    and Xeij: "\<forall>i<n_samples. \<forall>j<n_features. Xe ! i ! j = X ! i ! j + N ! i ! j"
    using mat_add_shape [OF sX sN] by blast
  have cd: "create_data L = Inr \<lparr>new_rng = g5, new_U = U, new_X = X, new_X_homo = Xh,
                         new_sigmas = ?sg, new_X_hetero = Xe\<rparr>"
    by (simp add: create_data_def d1 d2 d3 d4 d5 svdA X Xh N Xe)
  have g3: "rng_after_homo L = g3" by (simp add: rng_after_homo_def d1 d2 d3)
  have sd: "sigmas_draw L = r" by (simp add: sigmas_draw_def g3 d4)
  have hn: "hetero_noise L = Z2" by (simp add: hetero_noise_def g3 d4 d5)
  have "\<forall>i<n_samples. \<forall>j<n_features. Xe ! i ! j = X ! i ! j + hetero_noise L ! i ! j * ?sg ! j"
    using Nij Xeij hn by simp
  then show ?thesis using cd sX sXh sXe sd by simp
qed

lemma toy_generator_contract: "generator_contract toy_library"
  by (simp add: generator_contract_def toy_library_def has_shape_def list_all_length)

lemma toy_svd_U: "\<exists>U. svd_U toy_library A = Inr U"
  by (simp add: toy_library_def)






subsection \<open>The cells as state transformers\<close>

lemma plotting_cells_run:
  assumes "heap s (var_X_homo s) = Some (Mat Xa)"
      and "heap s (var_X_hetero s) = Some (Mat Xb)"
      and "heap s (var_n_components s) = Some (IVec grid)"
      and "loop_body L grid (int rank) Xa ''Homoscedastic Noise'' = Inr it1"
      and "loop_body L grid (int rank) Xb ''Heteroscedastic Noise'' = Inr it2"
  shows "\<exists>s'. plotting_cells L s = Inr s' \<and> heap s' = heap s
           \<and> observe s' =
               (Some (Mat Xa), Some (Mat Xb), printed it1 @ printed it2, [traces it1, traces it2],
                Some \<lparr>fig_data = traces it1, fig_title = ''Homoscedastic Noise'',
                      fig_xaxis = ''nb of components'', fig_yaxis = ''CV scores''\<rparr>,
                Some \<lparr>fig_data = traces it2, fig_title = ''Heteroscedastic Noise'',
                      fig_xaxis = ''nb of components'', fig_yaxis = ''CV scores''\<rparr>)"
  using assms
  by (simp add: plotting_cells_def plot_results_cell_def loop_pass_def get_mat_def get_ivec_def
        append_at_def homo_figure_cell_def hetero_figure_cell_def make_figure_def getitem_def
        observe_def)

lemma loop_pass_frame:
  assumes "loop_pass L p s = Inr s'"
  shows "heap s' = heap s \<and> next_id s' = next_id s \<and> rng s' = rng s
       \<and> var_U s' = var_U s \<and> var_X_homo s' = var_X_homo s \<and> var_X_hetero s' = var_X_hetero s
       \<and> var_sigmas s' = var_sigmas s \<and> var_n_components s' = var_n_components s
       \<and> var_X s' = fst p"
  using assms by (auto simp: loop_pass_def bind_Inr_iff Let_def)

lemma plot_results_cell_frame:
  assumes "plot_results_cell L s = Inr s'"
  shows "heap s' = heap s \<and> next_id s' = next_id s \<and> rng s' = rng s
       \<and> var_U s' = var_U s \<and> var_X_homo s' = var_X_homo s \<and> var_X_hetero s' = var_X_hetero s
       \<and> var_sigmas s' = var_sigmas s \<and> var_n_components s' = var_n_components s
       \<and> var_X s' = var_X_hetero s"
proof -
  let ?s0 = "s\<lparr>data := [[], []], data_i := 0, out_loop := []\<rparr>"
  from assms obtain s1 where
    p1: "loop_pass L (var_X_homo s, ''Homoscedastic Noise'') ?s0 = Inr s1" and
    p2: "loop_pass L (var_X_hetero s, ''Heteroscedastic Noise'') s1 = Inr s'"
    by (auto simp: plot_results_cell_def bind_Inr_iff Let_def)
  from loop_pass_frame [OF p1] loop_pass_frame [OF p2] show ?thesis by simp
qed

lemma figure_cells_frame:
  assumes "bind (homo_figure_cell s) hetero_figure_cell = Inr s'"
  shows "heap s' = heap s \<and> next_id s' = next_id s \<and> rng s' = rng s
       \<and> var_U s' = var_U s \<and> var_X_homo s' = var_X_homo s \<and> var_X_hetero s' = var_X_hetero s
       \<and> var_sigmas s' = var_sigmas s \<and> var_n_components s' = var_n_components s
       \<and> var_X s' = var_X s"
  using assms
  by (auto simp: homo_figure_cell_def hetero_figure_cell_def bind_Inr_iff)

lemma toy_plotting_cells:
  "\<exists>s'. plotting_cells toy_library toy_notebook = Inr s'"
proof -
  obtain it1 where it1: "loop_body toy_library [0, 10, 20] (int rank) [[2]] ''Homoscedastic Noise'' = Inr it1"
    using toy_loop_body_returns [of "[0, 10, 20]"] by blast
  obtain it2 where it2: "loop_body toy_library [0, 10, 20] (int rank) [[3]] ''Heteroscedastic Noise'' = Inr it2"
    using toy_loop_body_returns [of "[0, 10, 20]"] by blast
  have "\<exists>s'. plotting_cells toy_library toy_notebook = Inr s' \<and> heap s' = heap toy_notebook
           \<and> observe s' =
               (Some (Mat [[2]]), Some (Mat [[3]]), printed it1 @ printed it2, [traces it1, traces it2],
                Some \<lparr>fig_data = traces it1, fig_title = ''Homoscedastic Noise'',
                      fig_xaxis = ''nb of components'', fig_yaxis = ''CV scores''\<rparr>,
                Some \<lparr>fig_data = traces it2, fig_title = ''Heteroscedastic Noise'',
                      fig_xaxis = ''nb of components'', fig_yaxis = ''CV scores''\<rparr>)"
    by (rule plotting_cells_run [OF _ _ _ it1 it2]) (simp_all add: toy_notebook_def)
  then show ?thesis by blast
qed

lemma plotting_cells_observe:
  assumes "heap s (var_X_homo s) = Some (Mat Xa)"
      and "heap s (var_X_hetero s) = Some (Mat Xb)"
      and "heap s (var_n_components s) = Some (IVec grid)"
  shows "map_sum id observe (plotting_cells L s) =
           bind (loop_body L grid (int rank) Xa ''Homoscedastic Noise'') (\<lambda>it1.
           bind (loop_body L grid (int rank) Xb ''Heteroscedastic Noise'') (\<lambda>it2.
             Inr (Some (Mat Xa), Some (Mat Xb), printed it1 @ printed it2,
                  [traces it1, traces it2],
                  Some \<lparr>fig_data = traces it1, fig_title = ''Homoscedastic Noise'',
                        fig_xaxis = ''nb of components'', fig_yaxis = ''CV scores''\<rparr>,
                  Some \<lparr>fig_data = traces it2, fig_title = ''Heteroscedastic Noise'',
                        fig_xaxis = ''nb of components'', fig_yaxis = ''CV scores''\<rparr>)))"
proof (cases "loop_body L grid (int rank) Xa ''Homoscedastic Noise''")
  case (Inl e)
  then show ?thesis using assms
    by (simp add: plotting_cells_def plot_results_cell_def loop_pass_def get_mat_def get_ivec_def)
next
  case it1: (Inr it1)
  show ?thesis
  proof (cases "loop_body L grid (int rank) Xb ''Heteroscedastic Noise''")
    case (Inl e)
    then show ?thesis using assms it1
      by (simp add: plotting_cells_def plot_results_cell_def loop_pass_def get_mat_def
            get_ivec_def append_at_def)
  next
    case it2: (Inr it2)
    from plotting_cells_run [OF assms it1 it2] show ?thesis
      using it1 it2 by auto
  qed
qed

lemma pipeline_observe:
  "map_sum id observe (pipeline L s) =
     bind (create_data L) (\<lambda>c.
     bind n_components (\<lambda>grid.
     bind (loop_body L grid (int rank) (new_X_homo c) ''Homoscedastic Noise'') (\<lambda>it1.
     bind (loop_body L grid (int rank) (new_X_hetero c) ''Heteroscedastic Noise'') (\<lambda>it2.
       Inr (Some (Mat (new_X_homo c)), Some (Mat (new_X_hetero c)), printed it1 @ printed it2,
            [traces it1, traces it2],
            Some \<lparr>fig_data = traces it1, fig_title = ''Homoscedastic Noise'',
                  fig_xaxis = ''nb of components'', fig_yaxis = ''CV scores''\<rparr>,
            Some \<lparr>fig_data = traces it2, fig_title = ''Heteroscedastic Noise'',
                  fig_xaxis = ''nb of components'', fig_yaxis = ''CV scores''\<rparr>)))))"
proof (cases "create_data L")
  case (Inl e)
  then show ?thesis by (simp add: pipeline_def create_data_cell_def)
next
  case (Inr c)
  obtain s2 where s2: "bind (create_data_cell L s) fit_models_cell = Inr s2"
    and hX: "heap s2 (var_X_homo s2) = Some (Mat (new_X_homo c))"
    and hY: "heap s2 (var_X_hetero s2) = Some (Mat (new_X_hetero c))"
    and hG: "heap s2 (var_n_components s2) = Some (IVec [0, 5, 10, 15, 20, 25, 30, 35, 40, 45])"
    using Inr
    by (simp add: create_data_cell_def fit_models_cell_def alloc_def n_components_value)
  have "pipeline L s = plotting_cells L s2"
    using s2 unfolding pipeline_def by (cases "create_data_cell L s") simp_all
  then show ?thesis
    using plotting_cells_observe [OF hX hY hG, of L] Inr by (simp add: n_components_value)
qed

lemma toy_pipeline_returns: "\<exists>s1. pipeline toy_library s = Inr s1"
proof -
  obtain U where U: "svd_U toy_library (fst (randn toy_library (RandomState toy_library 42) n_features n_features)) = Inr U"
    using toy_svd_U by blast
  from create_data_returns [OF toy_generator_contract U] obtain c where
    c: "create_data toy_library = Inr c" by blast
  let ?g = "[0, 5, 10, 15, 20, 25, 30, 35, 40, 45] :: int list"
  obtain it1 where it1: "loop_body toy_library ?g (int rank) (new_X_homo c) ''Homoscedastic Noise'' = Inr it1"
    using toy_loop_body_returns [of ?g] by blast
  obtain it2 where it2: "loop_body toy_library ?g (int rank) (new_X_hetero c) ''Heteroscedastic Noise'' = Inr it2"
    using toy_loop_body_returns [of ?g] by blast
  have "\<exists>v. map_sum id observe (pipeline toy_library s) = Inr v"
    unfolding pipeline_observe by (simp add: c n_components_value it1 it2)
  then show ?thesis by (cases "pipeline toy_library s") auto
qed

text \<open>
  Claim C9. The cells that score and plot (\<open>compute_scores\<close>,
  \<open>shrunk_cov_score\<close>, \<open>lw_score\<close>, the MLE fit, the traces and the figures)
  leave every array of the store as it was, the signal matrix, the two datasets,
  \<open>sigmas\<close> and the grid among them, and the names \<open>X_homo\<close>, \<open>X_hetero\<close>,
  \<open>sigmas\<close>, \<open>n_components\<close> and \<open>U\<close> bound to the same arrays. The only name
  of an array they rebind is the loop variable \<open>X\<close>, which is left bound to the
  heteroscedastic dataset; no array is changed by that.
\<close>

theorem arrays_not_mutated:
  assumes "plotting_cells L s = Inr s'"
  shows "heap s' = heap s
       \<and> var_X_homo s' = var_X_homo s \<and> var_X_hetero s' = var_X_hetero s
       \<and> var_sigmas s' = var_sigmas s \<and> var_n_components s' = var_n_components s
       \<and> var_U s' = var_U s \<and> var_X s' = var_X_hetero s"
proof -
  from assms obtain s1 where
    a: "plot_results_cell L s = Inr s1" and
    b: "bind (homo_figure_cell s1) hetero_figure_cell = Inr s'"
    by (auto simp: plotting_cells_def bind_Inr_iff)
  from plot_results_cell_frame [OF a] figure_cells_frame [OF b] show ?thesis by simp
qed

theorem arrays_not_mutated_witness:
  "\<exists>s'. plotting_cells toy_library toy_notebook = Inr s'
      \<and> heap s' 0 = Some (Mat [[1]]) \<and> heap s' 1 = Some (Mat [[2]]) \<and> heap s' 2 = Some (Mat [[3]])
      \<and> heap s' 3 = Some (Vec [1]) \<and> heap s' 4 = Some (IVec [0, 10, 20])
      \<and> var_X_homo s' = 1 \<and> var_X_hetero s' = 2 \<and> var_sigmas s' = 3 \<and> var_n_components s' = 4
      \<and> var_X s' = 2"
proof -
  obtain s' where s': "plotting_cells toy_library toy_notebook = Inr s'"
    using toy_plotting_cells by blast
  from arrays_not_mutated [OF s'] have
    "heap s' = heap toy_notebook" "var_X_homo s' = var_X_homo toy_notebook"
    "var_X_hetero s' = var_X_hetero toy_notebook" "var_sigmas s' = var_sigmas toy_notebook"
    "var_n_components s' = var_n_components toy_notebook" "var_X s' = var_X_hetero toy_notebook"
    by simp_all
  then have "heap s' 0 = Some (Mat [[1]]) \<and> heap s' 1 = Some (Mat [[2]]) \<and> heap s' 2 = Some (Mat [[3]])
      \<and> heap s' 3 = Some (Vec [1]) \<and> heap s' 4 = Some (IVec [0, 10, 20])
      \<and> var_X_homo s' = 1 \<and> var_X_hetero s' = 2 \<and> var_sigmas s' = 3 \<and> var_n_components s' = 4
      \<and> var_X s' = 2"
    by (simp add: toy_notebook_def)
  with s' show ?thesis by blast
qed

text \<open>
  Claim C1. With the seed 42 fixed in the first cell, what a run of all cells shows
  (the datasets \<open>X_homo\<close> and \<open>X_hetero\<close>, the printed component counts of PCA,
  Factor Analysis and the MLE fit for both datasets, the traces with the PCA and FA
  score sequences, the figures, or the exception raised) does not depend on the state
  the notebook was in before; in particular a second run, started in the state the
  first one left, shows the same as the first.
\<close>

theorem pipeline_deterministic:
  "map_sum id observe (pipeline L s) = map_sum id observe (pipeline L s')
   \<and> map_sum id observe (bind (pipeline L s) (pipeline L)) = map_sum id observe (pipeline L s)"
proof
  show "map_sum id observe (pipeline L s) = map_sum id observe (pipeline L s')"
    by (simp only: pipeline_observe)
  show "map_sum id observe (bind (pipeline L s) (pipeline L)) = map_sum id observe (pipeline L s)"
  proof (cases "pipeline L s")
    case (Inl e)
    then show ?thesis by simp
  next
    case (Inr s1)
    have "map_sum id observe (pipeline L s1) = map_sum id observe (pipeline L s)"
      by (simp only: pipeline_observe)
    then show ?thesis using Inr by simp
  qed
qed

theorem pipeline_deterministic_witness:
  "\<exists>s1. pipeline toy_library toy_notebook = Inr s1
      \<and> map_sum id observe (pipeline toy_library (toy_notebook\<lparr>next_id := 9, data_i := 3\<rparr>))
          = Inr (observe s1)
      \<and> map_sum id observe (pipeline toy_library s1) = Inr (observe s1)"
proof -
  obtain s1 where s1: "pipeline toy_library toy_notebook = Inr s1"
    using toy_pipeline_returns by blast
  from pipeline_deterministic [of toy_library toy_notebook "toy_notebook\<lparr>next_id := 9, data_i := 3\<rparr>"]
  show ?thesis using s1 by simp
qed

end
